theory Spec2Isabelle
  imports Main
begin

section \<open>Python values and exceptions\<close>

text \<open>
  The exceptions that travel through \<^verbatim>\<open>decrypter.py\<close>. swob's
  \<^verbatim>\<open>HTTPException\<close> carries a status code and a body; \<^verbatim>\<open>HTTPForbidden\<close>
  and \<^verbatim>\<open>HTTPInternalServerError\<close> are \<^verbatim>\<open>HTTPException\<close>s with status
  403 and 500, so an \<^verbatim>\<open>except HTTPException\<close> clause catches them. Any other
  exception class is \<open>Exception\<close> with its class name.
\<close>

datatype exn =
    HTTPException nat string
  | KeyError
  | ValueError
  | IndexError
  | Exception string

definition HTTPForbidden :: "string \<Rightarrow> exn" where
  "HTTPForbidden body = HTTPException 403 body"

definition HTTPInternalServerError :: "string \<Rightarrow> exn" where
  "HTTPInternalServerError body = HTTPException 500 body"

fun is_HTTPException :: "exn \<Rightarrow> bool" where
  "is_HTTPException (HTTPException _ _) = True"
| "is_HTTPException _ = False"

text \<open>
  A header value or a decrypted value is a Python \<^verbatim>\<open>str\<close> or \<^verbatim>\<open>None\<close>:
  \<open>string option\<close>. Python's truth test takes \<^verbatim>\<open>None\<close> and the empty string
  as false. A key bundle is a \<^verbatim>\<open>dict\<close> from scope name to key, kept as an
  association list; where the source passes \<^verbatim>\<open>None\<close> for it, the model has
  \<open>None\<close>, and an empty dict is false as well.
\<close>

type_synonym pystr = "string option"
type_synonym header = "string \<times> pystr"
type_synonym keys = "(string \<times> string) list"

definition truthy :: "pystr \<Rightarrow> bool" where
  "truthy v = (case v of None \<Rightarrow> False | Some s \<Rightarrow> s \<noteq> [])"

definition dict_truthy :: "('k \<times> 'v) list option \<Rightarrow> bool" where
  "dict_truthy d = (case d of None \<Rightarrow> False | Some kvs \<Rightarrow> kvs \<noteq> [])"

text \<open>
  \<^verbatim>\<open>str.lower()\<close> on header names. The ASCII letters A..Z are the codes 65..90;
  their lower-case forms are 32 higher, which for these codes is setting bit 5.
\<close>

definition lower_char :: "char \<Rightarrow> char" where
  "lower_char c =
     (let n = (of_char c :: nat) in
      if 65 \<le> n \<and> n \<le> 90
      then Char (digit0 c) (digit1 c) (digit2 c) (digit3 c) (digit4 c) True (digit6 c) (digit7 c)
      else c)"

definition lower :: "string \<Rightarrow> string" where
  "lower s = map lower_char s"

text \<open>Python's \<^verbatim>\<open>xs[i]\<close> for a non-negative index: out of range raises.\<close>

definition getitem :: "'a list \<Rightarrow> nat \<Rightarrow> exn + 'a" where
  "getitem xs i = (if i < length xs then Inr (xs ! i) else Inl IndexError)"

section \<open>What the classes take from swift\<close>

text \<open>
  \<^verbatim>\<open>DecrypterObjContext\<close> extends swift's class of the same name, which is not
  part of this repository. Everything it inherits or imports is a parameter of the
  model:
  \<^item> \<open>response_headers\<close> is \<^verbatim>\<open>self._response_headers\<close>, the raw header pairs;
  \<^item> \<open>response_header_value\<close> is \<^verbatim>\<open>self._response_header_value\<close>: the value of
    a header of the response, \<^verbatim>\<open>None\<close> when there is none;
  \<^item> \<open>decrypt_header name value key required\<close> is \<^verbatim>\<open>self._decrypt_header\<close>:
    it raises, or returns a value, which the model lets be \<^verbatim>\<open>None\<close>;
  \<^item> \<open>decrypt_user_metadata\<close> is \<^verbatim>\<open>self.decrypt_user_metadata\<close>;
  \<^item> \<open>container_update_override_key\<close> is swift's
    \<^verbatim>\<open>get_container_update_override_key\<close>.
\<close>

record obj_ctx =
  response_headers :: "header list"
  response_header_value :: "string \<Rightarrow> pystr"
  decrypt_header :: "string \<Rightarrow> string \<Rightarrow> string \<Rightarrow> bool \<Rightarrow> exn + pystr"
  decrypt_user_metadata :: "keys \<Rightarrow> exn + header list"
  container_update_override_key :: "string \<Rightarrow> string"

text \<open>
  A request: its method, its path and the WSGI environment. The environment holds
  strings and booleans.
\<close>

datatype envval = EnvStr string | EnvBool bool

record request =
  req_method :: string
  req_path :: string
  environ :: "string \<rightharpoonup> envval"

record object_info =
  sysmeta :: "(string \<times> string) list"

text \<open>
  The key resolver's collaborators: swift's \<^verbatim>\<open>config_true_value\<close>, applied to
  the result of \<^verbatim>\<open>environ.get\<close>; \<^verbatim>\<open>get_object_info\<close>; and the inherited
  \<^verbatim>\<open>self.get_keys(env, required, key_id)\<close>, whose \<^verbatim>\<open>required\<close> scope list
  defaults to \<^verbatim>\<open>None\<close>.
\<close>

record key_ctx =
  config_true_value :: "envval option \<Rightarrow> bool"
  get_object_info :: "(string \<rightharpoonup> envval) \<Rightarrow> object_info"
  get_keys :: "(string \<rightharpoonup> envval) \<Rightarrow> string list option \<Rightarrow> pystr \<Rightarrow> exn + keys"

section \<open>DecrypterObjContext.get_decryption_keys\<close>

text \<open>
  The result is the list of debug messages this method logs, and either the exception
  it raises or the value it returns: a key bundle, or \<^verbatim>\<open>None\<close> when no
  decryption is to be done.
\<close>

text \<open>Line 42: \<^verbatim>\<open>crypto_meta.get('key_id') if crypto_meta else None\<close>.\<close>

definition key_id_of :: "(string \<times> string) list option \<Rightarrow> pystr" where
  "key_id_of crypto_meta =
     (if dict_truthy crypto_meta then map_of (the crypto_meta) ''key_id'' else None)"

definition get_decryption_keys ::
  "key_ctx \<Rightarrow> request \<Rightarrow> (string \<times> string) list option \<Rightarrow> string list \<times> (exn + keys option)"
where
  "get_decryption_keys self req crypto_meta =
     (if config_true_value self (environ req ''swift.crypto.override'')
      then ([''No decryption is necessary because of override''], Inr None)
      else
        let info = get_object_info self (environ req) in
        if ''crypto-etag'' \<notin> fst ` set (sysmeta info) then ([], Inr None)
        else
          let key_id = key_id_of crypto_meta in
          (case get_keys self (environ req) None key_id of
             Inr ks \<Rightarrow> ([], Inr (Some ks))
           | Inl e \<Rightarrow>
               if is_HTTPException e then
                 (if req_method req \<in> {''HEAD'', ''GET''} then
                    (case get_keys self (environ req) (Some [''container'']) key_id of
                       Inr ks \<Rightarrow> ([], Inr (Some ks))
                     | Inl e' \<Rightarrow> if is_HTTPException e' then ([], Inr None) else ([], Inl e'))
                  else ([], Inl e))
               else ([], Inl e)))"

section \<open>DecrypterObjContext.decrypt_resp_headers\<close>

text \<open>
  Lines 71 to 98: the checksum stage. It returns the messages logged and either the
  exception raised or \<^verbatim>\<open>mod_hdr_pairs\<close> as it stands before the user metadata
  is handled.
\<close>

definition decrypt_etags :: "obj_ctx \<Rightarrow> keys option \<Rightarrow> string list \<times> (exn + header list)" where
  "decrypt_etags self put_keys =
     (if dict_truthy put_keys then
        let pk = the put_keys;
            etag_header = ''X-Object-Sysmeta-Crypto-Etag'';
            encrypted_etag = response_header_value self etag_header;
            first = (if truthy encrypted_etag \<and> map_of pk ''object'' \<noteq> None
                     then (case decrypt_header self etag_header (the encrypted_etag)
                                  (the (map_of pk ''object'')) True of
                             Inl e \<Rightarrow> Inl e
                           | Inr decrypted_etag \<Rightarrow>
                               Inr (decrypted_etag, [(''Etag'', decrypted_etag)]))
                     else Inr (None, []))
        in (case first of
              Inl e \<Rightarrow> ([], Inl e)
            | Inr (decrypted_etag, mod_hdr_pairs) \<Rightarrow>
                let etag_header = container_update_override_key self ''etag'';
                    encrypted_etag = response_header_value self etag_header
                in if truthy encrypted_etag \<and> map_of pk ''container'' \<noteq> None
                   then (case decrypt_header self etag_header (the encrypted_etag)
                                (the (map_of pk ''container'')) False of
                           Inl e \<Rightarrow> ([], Inl e)
                         | Inr dcrypt_etag_override \<Rightarrow>
                             if truthy decrypted_etag \<and> dcrypt_etag_override \<noteq> decrypted_etag
                             then ([''Failed ETag verification''],
                                   Inl (HTTPForbidden ''Invalid key''))
                             else ([], Inr (mod_hdr_pairs @
                                     [(etag_header, dcrypt_etag_override),
                                      (''ETag'', dcrypt_etag_override)])))
                   else ([], Inr mod_hdr_pairs))
      else ([], Inr []))"

text \<open>
  Lines 107 to 116: the \<^verbatim>\<open>try\<close> block holds both the call of
  \<^verbatim>\<open>decrypt_user_metadata\<close> and the merge of the raw headers, and its only
  handler is \<^verbatim>\<open>except KeyError\<close>. The merge itself raises nothing on header
  pairs, so an exception in the block comes from \<^verbatim>\<open>decrypt_user_metadata\<close>,
  before \<^verbatim>\<open>extend\<close> changes \<^verbatim>\<open>mod_hdr_pairs\<close>.
\<close>

definition remap_user_metadata :: "obj_ctx \<Rightarrow> keys option \<Rightarrow> exn + header list" where
  "remap_user_metadata self post_keys =
     (if dict_truthy post_keys then decrypt_user_metadata self (the post_keys) else Inr [])"

definition merge_headers ::
  "obj_ctx \<Rightarrow> keys option \<Rightarrow> header list \<Rightarrow> string list \<times> (exn + header list)"
where
  "merge_headers self post_keys mod_hdr_pairs =
     (case remap_user_metadata self post_keys of
        Inl e \<Rightarrow>
          if e = KeyError then ([''Not able to decrypt user metadata''], Inr mod_hdr_pairs)
          else ([], Inl e)
      | Inr user_metadata \<Rightarrow>
          let mod_hdr_pairs = mod_hdr_pairs @ user_metadata;
              mod_hdr_names = set (map (\<lambda>(h, v). lower h) mod_hdr_pairs)
          in ([], Inr (mod_hdr_pairs @
                         filter (\<lambda>(h, v). lower h \<notin> mod_hdr_names) (response_headers self))))"

definition decrypt_resp_headers ::
  "obj_ctx \<Rightarrow> keys option \<Rightarrow> keys option \<Rightarrow> string list \<times> (exn + header list)"
where
  "decrypt_resp_headers self put_keys post_keys =
     (case decrypt_etags self put_keys of
        (log, Inl e) \<Rightarrow> (log, Inl e)
      | (log, Inr mod_hdr_pairs) \<Rightarrow>
          (case merge_headers self post_keys mod_hdr_pairs of
             (log', r) \<Rightarrow> (log @ log', r)))"

section \<open>Decrypter.__call__\<close>

text \<open>
  The middleware's collaborators: the next application of the pipeline, the
  \<^verbatim>\<open>handle\<close> methods of the object and container contexts, swob's
  \<^verbatim>\<open>Request.split_path(minsegs, maxsegs, rest_with_last)\<close>, and the call of a
  caught \<^verbatim>\<open>HTTPException\<close> as a WSGI application.
\<close>

record 'r decrypter =
  app :: "request \<Rightarrow> exn + 'r"
  obj_handle :: "request \<Rightarrow> exn + 'r"
  cont_handle :: "request \<Rightarrow> exn + 'r"
  split_path :: "string \<Rightarrow> nat \<Rightarrow> nat \<Rightarrow> bool \<Rightarrow> exn + pystr list"
  err_resp :: "exn \<Rightarrow> request \<Rightarrow> exn + 'r"

text \<open>Lines 138 to 141: the handler runs under \<^verbatim>\<open>except HTTPException\<close>.\<close>

definition run_handler :: "'r decrypter \<Rightarrow> (request \<Rightarrow> exn + 'r) \<Rightarrow> request \<Rightarrow> exn + 'r" where
  "run_handler self handler req =
     (case handler req of
        Inr resp \<Rightarrow> Inr resp
      | Inl e \<Rightarrow> if is_HTTPException e then err_resp self e req else Inl e)"

definition decrypter_call :: "'r decrypter \<Rightarrow> request \<Rightarrow> exn + 'r" where
  "decrypter_call self req =
     (case split_path self (req_path req) 3 4 True of
        Inl e \<Rightarrow> if e = ValueError then app self req else Inl e
      | Inr parts \<Rightarrow>
          (case getitem parts 3 of
             Inl e \<Rightarrow> Inl e
           | Inr object_part \<Rightarrow>
               if truthy object_part \<and> req_method req \<in> {''HEAD'', ''GET''}
               then run_handler self (obj_handle self) req
               else
                 (case getitem parts 2 of
                    Inl e \<Rightarrow> Inl e
                  | Inr container_part \<Rightarrow>
                      if truthy container_part \<and> req_method req = ''GET''
                      then run_handler self (cont_handle self) req
                      else app self req)))"

section \<open>Concrete collaborators\<close>

text \<open>
  Small stand-ins for swift's side, used where a statement is evaluated on a concrete
  response or request. \<open>lookup_header\<close> finds the first header of that name, compared
  in lower case; \<open>toy_decrypt_header\<close> takes a ciphertext to be the key followed by
  the plaintext, and on any other ciphertext raises when \<open>required\<close> and yields
  \<^verbatim>\<open>None\<close> otherwise; \<open>toy_decrypt_user_metadata\<close> needs the object key, as
  swift's \<^verbatim>\<open>keys['object']\<close> does, and then has the given outcome.
\<close>

definition lookup_header :: "header list \<Rightarrow> string \<Rightarrow> pystr" where
  "lookup_header hdrs key =
     (case filter (\<lambda>(h, v). lower h = lower key) hdrs of [] \<Rightarrow> None | (h, v) # _ \<Rightarrow> v)"

definition toy_decrypt_header :: "string \<Rightarrow> string \<Rightarrow> string \<Rightarrow> bool \<Rightarrow> exn + pystr" where
  "toy_decrypt_header name val key required =
     (if take (length key) val = key then Inr (Some (drop (length key) val))
      else if required then Inl (HTTPInternalServerError ''Error decrypting header'')
      else Inr None)"

definition toy_decrypt_user_metadata :: "exn + header list \<Rightarrow> keys \<Rightarrow> exn + header list" where
  "toy_decrypt_user_metadata outcome ks =
     (case map_of ks ''object'' of None \<Rightarrow> Inl KeyError | Some k \<Rightarrow> outcome)"

definition toy_override_key :: "string \<Rightarrow> string" where
  "toy_override_key key =
     (if key = ''etag'' then ''X-Object-Sysmeta-Container-Update-Override-Etag''
      else ''X-Object-Sysmeta-Container-Update-Override-'' @ key)"

definition toy_ctx :: "header list \<Rightarrow> exn + header list \<Rightarrow> obj_ctx" where
  "toy_ctx hdrs outcome =
     \<lparr>response_headers = hdrs,
      response_header_value = lookup_header hdrs,
      decrypt_header = toy_decrypt_header,
      decrypt_user_metadata = toy_decrypt_user_metadata outcome,
      container_update_override_key = toy_override_key\<rparr>"

text \<open>
  swift's \<^verbatim>\<open>config_true_value\<close>: \<^verbatim>\<open>True\<close>, or a string that reads as true.
  The key service of \<open>toy_get_keys\<close> grants the scopes listed in \<open>granted\<close> and
  refuses a request for any other scope with a 403.
\<close>

definition swift_config_true_value :: "envval option \<Rightarrow> bool" where
  "swift_config_true_value v =
     (case v of
        None \<Rightarrow> False
      | Some (EnvBool b) \<Rightarrow> b
      | Some (EnvStr s) \<Rightarrow> lower s \<in> {''true'', ''1'', ''yes'', ''on'', ''t'', ''y''})"

definition toy_get_keys :: "string list \<Rightarrow> string list option \<Rightarrow> pystr \<Rightarrow> exn + keys" where
  "toy_get_keys granted required key_id =
     (let scopes = (case required of None \<Rightarrow> [''object'', ''container''] | Some r \<Rightarrow> r)
      in if set scopes \<subseteq> set granted then Inr (map (\<lambda>s. (s, ''K-'' @ s)) scopes)
         else Inl (HTTPForbidden ''Forbidden''))"

definition toy_key_ctx :: "(string \<times> string) list \<Rightarrow> string list \<Rightarrow> key_ctx" where
  "toy_key_ctx sm granted =
     \<lparr>config_true_value = swift_config_true_value,
      get_object_info = (\<lambda>env. \<lparr>sysmeta = sm\<rparr>),
      get_keys = (\<lambda>env. toy_get_keys granted)\<rparr>"

definition toy_request :: "string \<Rightarrow> string \<Rightarrow> request" where
  "toy_request m p = \<lparr>req_method = m, req_path = p, environ = Map.empty\<rparr>"

text \<open>
  A path parser that knows three paths: an object path, a container path, and an
  account path, which \<^verbatim>\<open>split_path(3, 4, True)\<close> refuses. The toy middleware
  answers with the name of whoever handled the request.
\<close>

definition toy_split_path :: "string \<Rightarrow> nat \<Rightarrow> nat \<Rightarrow> bool \<Rightarrow> exn + pystr list" where
  "toy_split_path p minsegs maxsegs rest_with_last =
     (if p = ''/v1/a/c/o'' then Inr [Some ''v1'', Some ''a'', Some ''c'', Some ''o'']
      else if p = ''/v1/a/c'' then Inr [Some ''v1'', Some ''a'', Some ''c'', None]
      else Inl ValueError)"

definition toy_decrypter :: "string decrypter" where
  "toy_decrypter =
     \<lparr>app = (\<lambda>req. Inr ''next application''),
      obj_handle = (\<lambda>req. Inr ''object context''),
      cont_handle = (\<lambda>req. Inr ''container context''),
      split_path = toy_split_path,
      err_resp = (\<lambda>e req. Inr ''error response'')\<rparr>"

section \<open>Key resolution\<close>

text \<open>
  C7. An object whose system metadata has no \<^verbatim>\<open>crypto-etag\<close> entry, on a request
  without the override flag: \<open>get_decryption_keys\<close> returns \<^verbatim>\<open>None\<close>, and
  \<open>decrypt_resp_headers\<close> with no key bundles (\<^verbatim>\<open>None\<close>, or empty ones) returns
  the raw response headers unchanged and in order.
\<close>

theorem unencrypted_object_untouched:
  assumes "\<not> config_true_value self (environ req ''swift.crypto.override'')"
      and "''crypto-etag'' \<notin> fst ` set (sysmeta (get_object_info self (environ req)))"
  shows "get_decryption_keys self req crypto_meta = ([], Inr None)
       \<and> decrypt_resp_headers ctx None None = ([], Inr (response_headers ctx))
       \<and> decrypt_resp_headers ctx (Some []) (Some []) = ([], Inr (response_headers ctx))"
  using assms
  by (simp add: get_decryption_keys_def decrypt_resp_headers_def decrypt_etags_def
      merge_headers_def remap_user_metadata_def dict_truthy_def)

theorem unencrypted_object_untouched_witness:
  "get_decryption_keys (toy_key_ctx [(''other'', ''x'')] [''object'', ''container''])
      (toy_request ''GET'' ''/v1/a/c/o'') None = ([], Inr None)
   \<and> decrypt_resp_headers
        (toy_ctx [(''Content-Length'', Some ''3''), (''Etag'', Some ''900150'')] (Inr []))
        None None
      = ([], Inr [(''Content-Length'', Some ''3''), (''Etag'', Some ''900150'')])"
  using unencrypted_object_untouched
    [of "toy_key_ctx [(''other'', ''x'')] [''object'', ''container'']"
        "toy_request ''GET'' ''/v1/a/c/o''" None
        "toy_ctx [(''Content-Length'', Some ''3''), (''Etag'', Some ''900150'')] (Inr [])"]
  by (simp add: toy_key_ctx_def toy_request_def swift_config_true_value_def toy_ctx_def)

text \<open>
  C5. On a HEAD or GET request for an encrypted object, when the first fetch (default
  scopes) raises an \<^verbatim>\<open>HTTPException\<close>, the keys are fetched again for the scope
  list \<^verbatim>\<open>['container']\<close> with the same key id: if that succeeds its bundle is
  returned, and if it raises an \<^verbatim>\<open>HTTPException\<close> too the method returns
  \<^verbatim>\<open>None\<close> and raises nothing.
\<close>

theorem read_denied_falls_back_to_container:
  assumes "\<not> config_true_value self (environ req ''swift.crypto.override'')"
      and "''crypto-etag'' \<in> fst ` set (sysmeta (get_object_info self (environ req)))"
      and "req_method req = ''HEAD'' \<or> req_method req = ''GET''"
      and "get_keys self (environ req) None (key_id_of crypto_meta) = Inl e"
      and "is_HTTPException e"
  shows "(\<forall>ks. get_keys self (environ req) (Some [''container'']) (key_id_of crypto_meta) = Inr ks
            \<longrightarrow> get_decryption_keys self req crypto_meta = ([], Inr (Some ks)))
       \<and> (\<forall>e'. get_keys self (environ req) (Some [''container'']) (key_id_of crypto_meta) = Inl e'
              \<and> is_HTTPException e'
            \<longrightarrow> get_decryption_keys self req crypto_meta = ([], Inr None))"
  using assms
  by (auto simp add: get_decryption_keys_def Let_def)

theorem read_denied_falls_back_to_container_witness:
  "toy_get_keys [''container''] None (Some ''k7'') = Inl (HTTPException 403 ''Forbidden'')
   \<and> get_decryption_keys (toy_key_ctx [(''crypto-etag'', ''E'')] [''container''])
      (toy_request ''GET'' ''/v1/a/c/o'') (Some [(''key_id'', ''k7'')])
     = ([], Inr (Some [(''container'', ''K-container'')]))
   \<and> toy_get_keys [] (Some [''container'']) None = Inl (HTTPException 403 ''Forbidden'')
   \<and> get_decryption_keys (toy_key_ctx [(''crypto-etag'', ''E'')] [])
      (toy_request ''HEAD'' ''/v1/a/c/o'') None
     = ([], Inr None)"
proof -
  let ?r1 = "toy_request ''GET'' ''/v1/a/c/o''"
  let ?r2 = "toy_request ''HEAD'' ''/v1/a/c/o''"
  let ?s1 = "toy_key_ctx [(''crypto-etag'', ''E'')] [''container'']"
  let ?s2 = "toy_key_ctx [(''crypto-etag'', ''E'')] []"
  have a: "get_decryption_keys ?s1 ?r1 (Some [(''key_id'', ''k7'')])
            = ([], Inr (Some [(''container'', ''K-container'')]))"
    using read_denied_falls_back_to_container
      [of ?s1 ?r1 "Some [(''key_id'', ''k7'')]" "HTTPForbidden ''Forbidden''"]
    by (simp add: toy_key_ctx_def toy_request_def toy_get_keys_def swift_config_true_value_def
        key_id_of_def dict_truthy_def HTTPForbidden_def)
  have b: "get_decryption_keys ?s2 ?r2 None = ([], Inr None)"
    using read_denied_falls_back_to_container
      [of ?s2 ?r2 None "HTTPForbidden ''Forbidden''"]
    by (simp add: toy_key_ctx_def toy_request_def toy_get_keys_def swift_config_true_value_def
        key_id_of_def dict_truthy_def HTTPForbidden_def)
  have c: "toy_get_keys [''container''] None (Some ''k7'') = Inl (HTTPException 403 ''Forbidden'')"
    "toy_get_keys [] (Some [''container'']) None = Inl (HTTPException 403 ''Forbidden'')"
    by (simp_all add: toy_get_keys_def HTTPForbidden_def)
  from a b c show ?thesis by simp
qed

text \<open>
  C6. On a request of any other method for an encrypted object, an
  \<^verbatim>\<open>HTTPException\<close> of the key fetch is raised again to the caller, whatever a
  fetch of the container scope would have given.
\<close>

theorem write_denied_propagates:
  assumes "\<not> config_true_value self (environ req ''swift.crypto.override'')"
      and "''crypto-etag'' \<in> fst ` set (sysmeta (get_object_info self (environ req)))"
      and "req_method req \<noteq> ''HEAD''" and "req_method req \<noteq> ''GET''"
      and "get_keys self (environ req) None (key_id_of crypto_meta) = Inl e"
      and "is_HTTPException e"
  shows "get_decryption_keys self req crypto_meta = ([], Inl e)"
  using assms
  by (auto simp add: get_decryption_keys_def Let_def)

theorem write_denied_propagates_witness:
  "toy_get_keys [''container''] (Some [''container'']) None
     = Inr [(''container'', ''K-container'')]
   \<and> get_decryption_keys (toy_key_ctx [(''crypto-etag'', ''E'')] [''container''])
      (toy_request ''POST'' ''/v1/a/c/o'') None
     = ([], Inl (HTTPException 403 ''Forbidden''))"
  using write_denied_propagates
    [of "toy_key_ctx [(''crypto-etag'', ''E'')] [''container'']"
        "toy_request ''POST'' ''/v1/a/c/o''" None "HTTPForbidden ''Forbidden''"]
  by (simp add: toy_key_ctx_def toy_request_def toy_get_keys_def swift_config_true_value_def
      key_id_of_def dict_truthy_def HTTPForbidden_def)

section \<open>The checksum stage\<close>

lemma etag_mismatch_forbidden:
  assumes "map_of pk ''object'' = Some ko" and "map_of pk ''container'' = Some kc"
      and "response_header_value self ''X-Object-Sysmeta-Crypto-Etag'' = Some e1" and "e1 \<noteq> []"
      and "response_header_value self (container_update_override_key self ''etag'') = Some e2"
      and "e2 \<noteq> []"
      and "decrypt_header self ''X-Object-Sysmeta-Crypto-Etag'' e1 ko True = Inr (Some d1)"
      and "d1 \<noteq> []"
      and "decrypt_header self (container_update_override_key self ''etag'') e2 kc False = Inr d2"
      and "d2 \<noteq> Some d1"
  shows "decrypt_resp_headers self (Some pk) post_keys
           = ([''Failed ETag verification''], Inl (HTTPForbidden ''Invalid key''))"
proof -
  from assms(1) have "pk \<noteq> []" by auto
  with assms have "decrypt_etags self (Some pk)
           = ([''Failed ETag verification''], Inl (HTTPForbidden ''Invalid key''))"
    by (simp add: decrypt_etags_def dict_truthy_def truthy_def)
  then show ?thesis by (simp add: decrypt_resp_headers_def)
qed

text \<open>
  C1, as the code has it. Both encrypted checksum headers are present with non-empty
  values, the bundle holds both keys, and both decryptions return a string. If the
  object-scope plaintext is not empty and the container-scope plaintext differs from
  it, \<open>decrypt_resp_headers\<close> logs the failed verification and raises
  \<^verbatim>\<open>HTTPForbidden('Invalid key')\<close>; no header list is returned.
\<close>

theorem etag_mismatch_is_forbidden:
  assumes "map_of pk ''object'' = Some ko" and "map_of pk ''container'' = Some kc"
      and "response_header_value self ''X-Object-Sysmeta-Crypto-Etag'' = Some e1" and "e1 \<noteq> []"
      and "response_header_value self (container_update_override_key self ''etag'') = Some e2"
      and "e2 \<noteq> []"
      and "decrypt_header self ''X-Object-Sysmeta-Crypto-Etag'' e1 ko True = Inr (Some d1)"
      and "d1 \<noteq> []"
      and "decrypt_header self (container_update_override_key self ''etag'') e2 kc False
             = Inr (Some d2)"
      and "d2 \<noteq> d1"
  shows "decrypt_resp_headers self (Some pk) post_keys
           = ([''Failed ETag verification''], Inl (HTTPForbidden ''Invalid key''))"
  using etag_mismatch_forbidden [OF assms(1-9), of post_keys] assms(10) by simp

theorem etag_mismatch_is_forbidden_witness:
  "decrypt_resp_headers
     (toy_ctx [(''X-Object-Sysmeta-Crypto-Etag'', Some ''K1abc''),
               (''Content-Length'', Some ''3''),
               (''X-Object-Sysmeta-Container-Update-Override-Etag'', Some ''K2abd'')] (Inr []))
     (Some [(''object'', ''K1''), (''container'', ''K2'')])
     (Some [(''object'', ''K1''), (''container'', ''K2'')])
   = ([''Failed ETag verification''], Inl (HTTPException 403 ''Invalid key''))"
  using etag_mismatch_is_forbidden
    [of "[(''object'', ''K1''), (''container'', ''K2'')]" "''K1''" "''K2''"
        "toy_ctx [(''X-Object-Sysmeta-Crypto-Etag'', Some ''K1abc''),
               (''Content-Length'', Some ''3''),
               (''X-Object-Sysmeta-Container-Update-Override-Etag'', Some ''K2abd'')] (Inr [])"
        "''K1abc''" "''K2abd''" "''abc''" "''abd''"
        "Some [(''object'', ''K1''), (''container'', ''K2'')]"]
  by (simp add: toy_ctx_def toy_override_key_def toy_decrypt_header_def lookup_header_def
      lower_def lower_char_def HTTPForbidden_def)

text \<open>
  The claim without the restriction fails: when the object-scope checksum decrypts to
  the empty string, the test \<^verbatim>\<open>if decrypted_etag and ...\<close> is false and the
  container-scope plaintext, though different, is staged without complaint.
\<close>

theorem empty_object_etag_not_compared:
  "response_header_value
     (toy_ctx [(''X-Object-Sysmeta-Crypto-Etag'', Some ''K1''),
               (''X-Object-Sysmeta-Container-Update-Override-Etag'', Some ''K2abc'')] (Inr []))
     ''X-Object-Sysmeta-Crypto-Etag'' = Some ''K1''
   \<and> response_header_value
     (toy_ctx [(''X-Object-Sysmeta-Crypto-Etag'', Some ''K1''),
               (''X-Object-Sysmeta-Container-Update-Override-Etag'', Some ''K2abc'')] (Inr []))
     ''X-Object-Sysmeta-Container-Update-Override-Etag'' = Some ''K2abc''
   \<and> toy_decrypt_header ''X-Object-Sysmeta-Crypto-Etag'' ''K1'' ''K1'' True = Inr (Some [])
   \<and> toy_decrypt_header ''X-Object-Sysmeta-Container-Update-Override-Etag'' ''K2abc'' ''K2'' False
       = Inr (Some ''abc'')
   \<and> decrypt_resp_headers
       (toy_ctx [(''X-Object-Sysmeta-Crypto-Etag'', Some ''K1''),
                 (''X-Object-Sysmeta-Container-Update-Override-Etag'', Some ''K2abc'')] (Inr []))
       (Some [(''object'', ''K1''), (''container'', ''K2'')]) None
     = ([], Inr [(''Etag'', Some []),
                 (''X-Object-Sysmeta-Container-Update-Override-Etag'', Some ''abc''),
                 (''ETag'', Some ''abc''),
                 (''X-Object-Sysmeta-Crypto-Etag'', Some ''K1'')])"
  by (simp add: toy_ctx_def toy_override_key_def toy_decrypt_header_def lookup_header_def
      lower_def lower_char_def decrypt_resp_headers_def decrypt_etags_def merge_headers_def
      remap_user_metadata_def truthy_def dict_truthy_def)

text \<open>
  C10. The object-scope checksum decrypts to a non-empty string, the container-scope
  copy is present and its key is in the bundle, but its decryption (called with
  \<open>required = False\<close>) returns \<^verbatim>\<open>None\<close>. The comparison
  \<^verbatim>\<open>None != decrypted_etag\<close> is true, so \<open>decrypt_resp_headers\<close> raises
  \<^verbatim>\<open>HTTPForbidden('Invalid key')\<close> instead of leaving the container header out.
\<close>

theorem absent_container_etag_is_mismatch:
  assumes "map_of pk ''object'' = Some ko" and "map_of pk ''container'' = Some kc"
      and "response_header_value self ''X-Object-Sysmeta-Crypto-Etag'' = Some e1" and "e1 \<noteq> []"
      and "response_header_value self (container_update_override_key self ''etag'') = Some e2"
      and "e2 \<noteq> []"
      and "decrypt_header self ''X-Object-Sysmeta-Crypto-Etag'' e1 ko True = Inr (Some d1)"
      and "d1 \<noteq> []"
      and "decrypt_header self (container_update_override_key self ''etag'') e2 kc False
             = Inr None"
  shows "decrypt_resp_headers self (Some pk) post_keys
           = ([''Failed ETag verification''], Inl (HTTPForbidden ''Invalid key''))"
  using etag_mismatch_forbidden [OF assms, of post_keys] by simp

theorem absent_container_etag_is_mismatch_witness:
  "toy_decrypt_header ''X-Object-Sysmeta-Container-Update-Override-Etag'' ''garbled'' ''K2'' False
     = Inr None
   \<and> decrypt_resp_headers
     (toy_ctx [(''X-Object-Sysmeta-Crypto-Etag'', Some ''K1abc''),
               (''X-Object-Sysmeta-Container-Update-Override-Etag'', Some ''garbled'')] (Inr []))
     (Some [(''object'', ''K1''), (''container'', ''K2'')]) None
   = ([''Failed ETag verification''], Inl (HTTPException 403 ''Invalid key''))"
  using absent_container_etag_is_mismatch
    [of "[(''object'', ''K1''), (''container'', ''K2'')]" "''K1''" "''K2''"
        "toy_ctx [(''X-Object-Sysmeta-Crypto-Etag'', Some ''K1abc''),
               (''X-Object-Sysmeta-Container-Update-Override-Etag'', Some ''garbled'')] (Inr [])"
        "''K1abc''" "''garbled''" "''abc''" None]
  by (simp add: toy_ctx_def toy_override_key_def toy_decrypt_header_def lookup_header_def
      lower_def lower_char_def HTTPForbidden_def)

text \<open>
  C3, as the code has it. The bundle holds an object key and the object-scope encrypted
  checksum header is present with a non-empty value. Then \<open>decrypt_header\<close> is
  called on it with \<open>required = True\<close>: if it raises, so does
  \<open>decrypt_resp_headers\<close>; if it returns a value, every header list that
  \<open>decrypt_resp_headers\<close> returns starts with that value under the name
  \<^verbatim>\<open>Etag\<close>, and begins with the list the checksum stage has staged. The object
  step stages nothing else: when the container step does not run, the checksum stage
  ends with that single pair. The override name is staged by the container step alone:
  when the override header is present with a non-empty value, the bundle holds a
  container key and the decryption of that header returns a value that passes the
  comparison, the checksum stage ends with the object-scope value under
  \<^verbatim>\<open>Etag\<close>, followed by the container-scope value under the override name and
  under \<^verbatim>\<open>ETag\<close>.
\<close>

theorem object_etag_staged_as_Etag:
  assumes "map_of pk ''object'' = Some ko"
      and "response_header_value self ''X-Object-Sysmeta-Crypto-Etag'' = Some e1" and "e1 \<noteq> []"
  shows "(\<forall>e. decrypt_header self ''X-Object-Sysmeta-Crypto-Etag'' e1 ko True = Inl e
            \<longrightarrow> decrypt_resp_headers self (Some pk) post_keys = ([], Inl e))
       \<and> (\<forall>d log hs. decrypt_header self ''X-Object-Sysmeta-Crypto-Etag'' e1 ko True = Inr d
              \<and> decrypt_resp_headers self (Some pk) post_keys = (log, Inr hs)
            \<longrightarrow> (\<exists>rest. hs = (''Etag'', d) # rest))
       \<and> (\<forall>d. decrypt_header self ''X-Object-Sysmeta-Crypto-Etag'' e1 ko True = Inr d
              \<and> \<not> (truthy (response_header_value self (container_update_override_key self ''etag''))
                    \<and> map_of pk ''container'' \<noteq> None)
            \<longrightarrow> decrypt_etags self (Some pk) = ([], Inr [(''Etag'', d)]))
       \<and> (\<forall>d e2 kc d2. decrypt_header self ''X-Object-Sysmeta-Crypto-Etag'' e1 ko True = Inr d
              \<and> response_header_value self (container_update_override_key self ''etag'') = Some e2
              \<and> e2 \<noteq> [] \<and> map_of pk ''container'' = Some kc
              \<and> decrypt_header self (container_update_override_key self ''etag'') e2 kc False
                   = Inr d2
              \<and> \<not> (truthy d \<and> d2 \<noteq> d)
            \<longrightarrow> decrypt_etags self (Some pk)
                  = ([], Inr [(''Etag'', d),
                              (container_update_override_key self ''etag'', d2),
                              (''ETag'', d2)]))
       \<and> (\<forall>log hs. decrypt_resp_headers self (Some pk) post_keys = (log, Inr hs)
            \<longrightarrow> (\<exists>l st rest. decrypt_etags self (Some pk) = (l, Inr st) \<and> hs = st @ rest))"
proof -
  from assms(1) have pk: "dict_truthy (Some pk)" by (auto simp: dict_truthy_def)
  have enc: "truthy (Some e1)" using assms(3) by (simp add: truthy_def)
  have raise: "decrypt_resp_headers self (Some pk) post_keys = ([], Inl e)"
    if "decrypt_header self ''X-Object-Sysmeta-Crypto-Etag'' e1 ko True = Inl e" for e
    using that assms(1,2) pk enc by (simp add: decrypt_resp_headers_def decrypt_etags_def)
  have begins: "\<exists>l st rest. decrypt_etags self (Some pk) = (l, Inr st) \<and> hs = st @ rest"
    if r: "decrypt_resp_headers self (Some pk) post_keys = (log, Inr hs)" for log hs
  proof -
    obtain l0 r0 where e0: "decrypt_etags self (Some pk) = (l0, r0)"
      by (cases "decrypt_etags self (Some pk)")
    from r e0 obtain st where r0: "r0 = Inr st"
      by (cases r0) (auto simp: decrypt_resp_headers_def)
    from r e0 r0 have "\<exists>rest. hs = st @ rest"
      by (auto simp: decrypt_resp_headers_def merge_headers_def Let_def
          split: sum.splits if_splits prod.splits)
    with e0 r0 show ?thesis by blast
  qed
  have stage: "\<exists>rest. hs = (''Etag'', d) # rest"
    if d: "decrypt_header self ''X-Object-Sysmeta-Crypto-Etag'' e1 ko True = Inr d"
      and r: "decrypt_resp_headers self (Some pk) post_keys = (log, Inr hs)" for d log hs
  proof -
    from begins [OF r] obtain l st rest
      where e0: "decrypt_etags self (Some pk) = (l, Inr st)" and hs: "hs = st @ rest"
      by blast
    have "\<exists>st'. st = (''Etag'', d) # st'"
      using e0 d assms(1,2) pk enc
      by (auto simp: decrypt_etags_def Let_def split: if_splits sum.splits)
    with hs show ?thesis by auto
  qed
  have only: "decrypt_etags self (Some pk) = ([], Inr [(''Etag'', d)])"
    if "decrypt_header self ''X-Object-Sysmeta-Crypto-Etag'' e1 ko True = Inr d"
      and "\<not> (truthy (response_header_value self (container_update_override_key self ''etag''))
                    \<and> map_of pk ''container'' \<noteq> None)" for d
    using that assms(1,2) pk enc by (auto simp: decrypt_etags_def Let_def)
  have both: "decrypt_etags self (Some pk)
                = ([], Inr [(''Etag'', d),
                            (container_update_override_key self ''etag'', d2),
                            (''ETag'', d2)])"
    if "decrypt_header self ''X-Object-Sysmeta-Crypto-Etag'' e1 ko True = Inr d"
      and "response_header_value self (container_update_override_key self ''etag'') = Some e2"
      and "e2 \<noteq> []" and "map_of pk ''container'' = Some kc"
      and "decrypt_header self (container_update_override_key self ''etag'') e2 kc False = Inr d2"
      and "\<not> (truthy d \<and> d2 \<noteq> d)" for d e2 kc d2
  proof -
    have "truthy (Some e2)" using that(3) by (simp add: truthy_def)
    with that assms(1,2) pk enc show ?thesis
      by (simp add: decrypt_etags_def Let_def)
  qed
  from raise stage only both begins show ?thesis by blast
qed

theorem object_etag_staged_as_Etag_witness:
  "toy_decrypt_header ''X-Object-Sysmeta-Crypto-Etag'' ''K1abc'' ''K1'' True = Inr (Some ''abc'')
   \<and> decrypt_etags
        (toy_ctx [(''X-Object-Sysmeta-Crypto-Etag'', Some ''K1abc''),
                  (''Content-Length'', Some ''3'')] (Inr []))
        (Some [(''object'', ''K1'')])
      = ([], Inr [(''Etag'', Some ''abc'')])
   \<and> toy_decrypt_header ''X-Object-Sysmeta-Crypto-Etag'' ''garbled'' ''K1'' True
      = Inl (HTTPException 500 ''Error decrypting header'')
   \<and> decrypt_resp_headers
        (toy_ctx [(''X-Object-Sysmeta-Crypto-Etag'', Some ''garbled'')] (Inr []))
        (Some [(''object'', ''K1'')]) None
      = ([], Inl (HTTPException 500 ''Error decrypting header''))
   \<and> decrypt_etags
        (toy_ctx [(''X-Object-Sysmeta-Crypto-Etag'', Some ''K1''),
                  (''X-Object-Sysmeta-Container-Update-Override-Etag'', Some ''K2abc'')] (Inr []))
        (Some [(''object'', ''K1''), (''container'', ''K2'')])
      = ([], Inr [(''Etag'', Some []),
                  (''X-Object-Sysmeta-Container-Update-Override-Etag'', Some ''abc''),
                  (''ETag'', Some ''abc'')])
   \<and> decrypt_etags
        (toy_ctx [(''X-Object-Sysmeta-Crypto-Etag'', Some ''K1abc''),
                  (''X-Object-Sysmeta-Container-Update-Override-Etag'', Some ''K2abc'')] (Inr []))
        (Some [(''object'', ''K1''), (''container'', ''K2'')])
      = ([], Inr [(''Etag'', Some ''abc''),
                  (''X-Object-Sysmeta-Container-Update-Override-Etag'', Some ''abc''),
                  (''ETag'', Some ''abc'')])"
proof -
  let ?c1 = "toy_ctx [(''X-Object-Sysmeta-Crypto-Etag'', Some ''K1abc''),
                  (''Content-Length'', Some ''3'')] (Inr [])"
  let ?c2 = "toy_ctx [(''X-Object-Sysmeta-Crypto-Etag'', Some ''garbled'')] (Inr [])"
  let ?c3 = "toy_ctx [(''X-Object-Sysmeta-Crypto-Etag'', Some ''K1''),
                  (''X-Object-Sysmeta-Container-Update-Override-Etag'', Some ''K2abc'')] (Inr [])"
  let ?c4 = "toy_ctx [(''X-Object-Sysmeta-Crypto-Etag'', Some ''K1abc''),
                  (''X-Object-Sysmeta-Container-Update-Override-Etag'', Some ''K2abc'')] (Inr [])"
  let ?both = "[(''object'', ''K1''), (''container'', ''K2'')]"
  have a: "decrypt_etags ?c1 (Some [(''object'', ''K1'')]) = ([], Inr [(''Etag'', Some ''abc'')])"
    using object_etag_staged_as_Etag
      [of "[(''object'', ''K1'')]" "''K1''" ?c1 "''K1abc''" None]
    by (simp add: toy_ctx_def toy_override_key_def toy_decrypt_header_def lookup_header_def
        lower_def lower_char_def truthy_def)
  have b: "decrypt_resp_headers ?c2 (Some [(''object'', ''K1'')]) None
             = ([], Inl (HTTPException 500 ''Error decrypting header''))"
    using object_etag_staged_as_Etag
      [of "[(''object'', ''K1'')]" "''K1''" ?c2 "''garbled''" None]
    by (simp add: toy_ctx_def toy_override_key_def toy_decrypt_header_def lookup_header_def
        lower_def lower_char_def truthy_def HTTPInternalServerError_def)
  have c: "toy_decrypt_header ''X-Object-Sysmeta-Crypto-Etag'' ''K1abc'' ''K1'' True
             = Inr (Some ''abc'')"
    "toy_decrypt_header ''X-Object-Sysmeta-Crypto-Etag'' ''garbled'' ''K1'' True
      = Inl (HTTPException 500 ''Error decrypting header'')"
    by (simp_all add: toy_decrypt_header_def HTTPInternalServerError_def)
  have d: "decrypt_etags ?c3 (Some ?both)
             = ([], Inr [(''Etag'', Some []),
                  (''X-Object-Sysmeta-Container-Update-Override-Etag'', Some ''abc''),
                  (''ETag'', Some ''abc'')])"
    using object_etag_staged_as_Etag [of ?both "''K1''" ?c3 "''K1''" None]
    by (simp add: toy_ctx_def toy_override_key_def toy_decrypt_header_def lookup_header_def
        lower_def lower_char_def truthy_def)
  have e: "decrypt_etags ?c4 (Some ?both)
             = ([], Inr [(''Etag'', Some ''abc''),
                  (''X-Object-Sysmeta-Container-Update-Override-Etag'', Some ''abc''),
                  (''ETag'', Some ''abc'')])"
    using object_etag_staged_as_Etag [of ?both "''K1''" ?c4 "''K1abc''" None]
    by (simp add: toy_ctx_def toy_override_key_def toy_decrypt_header_def lookup_header_def
        lower_def lower_char_def truthy_def)
  from a b c d e show ?thesis by simp
qed

text \<open>
  The claim as written fails: with an object key only, the decrypted checksum appears
  under \<^verbatim>\<open>Etag\<close> and no entry carries the override name.
\<close>

theorem override_name_not_staged_by_object_step:
  "decrypt_resp_headers
     (toy_ctx [(''X-Object-Sysmeta-Crypto-Etag'', Some ''K1abc''),
               (''Content-Length'', Some ''3'')] (Inr []))
     (Some [(''object'', ''K1'')]) None
   = ([], Inr [(''Etag'', Some ''abc''),
               (''X-Object-Sysmeta-Crypto-Etag'', Some ''K1abc''),
               (''Content-Length'', Some ''3'')])
   \<and> toy_override_key ''etag''
       \<notin> set (map fst [(''Etag'', Some ''abc''),
                        (''X-Object-Sysmeta-Crypto-Etag'', Some ''K1abc''),
                        (''Content-Length'', Some ''3'')])"
  by (simp add: toy_ctx_def toy_override_key_def toy_decrypt_header_def lookup_header_def
      lower_def lower_char_def decrypt_resp_headers_def decrypt_etags_def merge_headers_def
      remap_user_metadata_def truthy_def dict_truthy_def)

section \<open>Merging the raw headers\<close>

lemma distinct_staged_then_filtered:
  assumes "distinct (map f xs)" and "distinct (map f ys)"
  shows "distinct (map f (xs @ filter (\<lambda>r. f r \<notin> f ` set xs) ys))"
proof -
  have "distinct (map f (filter (\<lambda>r. f r \<notin> f ` set xs) ys))"
    using assms(2) by (rule distinct_map_filter)
  moreover have "f ` set xs \<inter> f ` set (filter (\<lambda>r. f r \<notin> f ` set xs) ys) = {}"
  proof (rule equals0I)
    fix y
    assume "y \<in> f ` set xs \<inter> f ` set (filter (\<lambda>r. f r \<notin> f ` set xs) ys)"
    then have y1: "y \<in> f ` set xs"
      and y2: "y \<in> f ` set (filter (\<lambda>r. f r \<notin> f ` set xs) ys)"
      by blast+
    from y2 obtain b where "b \<in> set (filter (\<lambda>r. f r \<notin> f ` set xs) ys)" and "y = f b"
      by (rule imageE)
    then have "y \<notin> f ` set xs" by simp
    with y1 show False by contradiction
  qed
  ultimately show ?thesis using assms(1) by simp
qed

lemma passthrough_pred:
  "(\<lambda>(h, v). lower h \<notin> set (map (\<lambda>(h, v). lower h) xs))
     = (\<lambda>r. lower (fst r) \<notin> (lower \<circ> fst) ` set xs)"
proof -
  have "map (\<lambda>(h, v). lower h) xs = map (lower \<circ> fst) xs"
    by (simp add: case_prod_unfold comp_def)
  then show ?thesis by (simp add: case_prod_unfold)
qed

lemma merge_headers_success:
  assumes "remap_user_metadata self post_keys = Inr um"
  shows "merge_headers self post_keys st
           = ([], Inr ((st @ um) @
                filter (\<lambda>r. lower (fst r) \<notin> (lower \<circ> fst) ` set (st @ um))
                  (response_headers self)))"
  by (simp only: merge_headers_def assms sum.case Let_def passthrough_pred)

text \<open>
  C2, as the code has it. When the checksum stage and the metadata remap succeed, the
  result is the staged entries followed by exactly those raw response headers whose
  lower-cased name is the lower-cased name of no staged entry, in their order: a raw
  header never shadows a staged one. Staged entries are not compared with one another
  and raw headers are not compared with one another, so the names of the result are
  pairwise distinct (ignoring case) when those of the staged entries and those of the
  raw headers are.
\<close>

theorem raw_headers_never_shadow_staged:
  assumes "decrypt_etags self put_keys = (log, Inr st)"
      and "remap_user_metadata self post_keys = Inr um"
  shows "\<exists>ps. decrypt_resp_headers self put_keys post_keys = (log, Inr ((st @ um) @ ps))
           \<and> ps = filter (\<lambda>r. lower (fst r) \<notin> (lower \<circ> fst) ` set (st @ um))
                    (response_headers self)
           \<and> (distinct (map (lower \<circ> fst) (st @ um))
                \<and> distinct (map (lower \<circ> fst) (response_headers self))
              \<longrightarrow> distinct (map (lower \<circ> fst) ((st @ um) @ ps)))"
proof -
  let ?ps = "filter (\<lambda>r. lower (fst r) \<notin> (lower \<circ> fst) ` set (st @ um))
               (response_headers self)"
  have "decrypt_resp_headers self put_keys post_keys = (log, Inr ((st @ um) @ ?ps))"
    using assms(1) merge_headers_success [OF assms(2), of st]
    by (simp add: decrypt_resp_headers_def)
  moreover have "distinct (map (lower \<circ> fst) (st @ um))
                \<and> distinct (map (lower \<circ> fst) (response_headers self))
              \<longrightarrow> distinct (map (lower \<circ> fst) ((st @ um) @ ?ps))"
  proof
    assume d: "distinct (map (lower \<circ> fst) (st @ um))
                \<and> distinct (map (lower \<circ> fst) (response_headers self))"
    have "filter (\<lambda>r. (lower \<circ> fst) r \<notin> (lower \<circ> fst) ` set (st @ um))
            (response_headers self) = ?ps"
      by (simp only: comp_apply)
    with distinct_staged_then_filtered [of "lower \<circ> fst" "st @ um" "response_headers self"] d
    show "distinct (map (lower \<circ> fst) ((st @ um) @ ?ps))" by simp
  qed
  ultimately show ?thesis by blast
qed

theorem raw_headers_never_shadow_staged_witness:
  "decrypt_resp_headers
     (toy_ctx [(''Content-Length'', Some ''3''),
               (''etag'', Some ''d41d8''),
               (''X-Object-Sysmeta-Crypto-Etag'', Some ''K1abc''),
               (''X-Object-Meta-Color'', Some ''red'')]
        (Inr [(''X-Object-Meta-Color'', Some ''blue'')]))
     (Some [(''object'', ''K1'')]) (Some [(''object'', ''K1'')])
   = ([], Inr [(''Etag'', Some ''abc''),
               (''X-Object-Meta-Color'', Some ''blue''),
               (''Content-Length'', Some ''3''),
               (''X-Object-Sysmeta-Crypto-Etag'', Some ''K1abc'')])"
  using raw_headers_never_shadow_staged
    [of "toy_ctx [(''Content-Length'', Some ''3''),
               (''etag'', Some ''d41d8''),
               (''X-Object-Sysmeta-Crypto-Etag'', Some ''K1abc''),
               (''X-Object-Meta-Color'', Some ''red'')]
        (Inr [(''X-Object-Meta-Color'', Some ''blue'')])"
        "Some [(''object'', ''K1'')]" "[]" "[(''Etag'', Some ''abc'')]"
        "Some [(''object'', ''K1'')]" "[(''X-Object-Meta-Color'', Some ''blue'')]"]
  by (simp add: toy_ctx_def toy_override_key_def toy_decrypt_header_def lookup_header_def
      toy_decrypt_user_metadata_def lower_def lower_char_def decrypt_etags_def
      remap_user_metadata_def truthy_def dict_truthy_def)

text \<open>
  The claim as written fails twice over. With both keys and matching checksums the
  checksum stage itself stages \<^verbatim>\<open>Etag\<close> and \<^verbatim>\<open>ETag\<close>, which are equal
  in lower case; and two raw headers of one name, neither of them staged, both pass.
\<close>

theorem final_names_not_distinct:
  "decrypt_resp_headers
     (toy_ctx [(''X-Object-Sysmeta-Crypto-Etag'', Some ''K1abc''),
               (''X-Object-Sysmeta-Container-Update-Override-Etag'', Some ''K2abc'')] (Inr []))
     (Some [(''object'', ''K1''), (''container'', ''K2'')]) None
   = ([], Inr [(''Etag'', Some ''abc''),
               (''X-Object-Sysmeta-Container-Update-Override-Etag'', Some ''abc''),
               (''ETag'', Some ''abc''),
               (''X-Object-Sysmeta-Crypto-Etag'', Some ''K1abc'')])
   \<and> lower ''Etag'' = lower ''ETag''
   \<and> decrypt_resp_headers
       (toy_ctx [(''Set-Cookie'', Some ''a=1''), (''set-cookie'', Some ''b=2'')] (Inr []))
       None None
     = ([], Inr [(''Set-Cookie'', Some ''a=1''), (''set-cookie'', Some ''b=2'')])
   \<and> lower ''Set-Cookie'' = lower ''set-cookie''"
  by (simp add: toy_ctx_def toy_override_key_def toy_decrypt_header_def lookup_header_def
      lower_def lower_char_def decrypt_resp_headers_def decrypt_etags_def merge_headers_def
      remap_user_metadata_def truthy_def dict_truthy_def)

section \<open>Exceptions of the metadata remap\<close>




text \<open>
  C8, as the code has it. The handler of the remap-and-merge block is
  \<^verbatim>\<open>except KeyError\<close>: after a successful checksum stage, an exception raised
  in the block leaves \<open>decrypt_resp_headers\<close> returning a header list exactly when
  it is a \<^verbatim>\<open>KeyError\<close>; every other exception is raised to the caller unchanged.
\<close>

theorem only_KeyError_is_swallowed:
  assumes "decrypt_etags self put_keys = (log, Inr st)"
      and "remap_user_metadata self post_keys = Inl e"
  shows "((\<exists>l hs. decrypt_resp_headers self put_keys post_keys = (l, Inr hs)) = (e = KeyError))
       \<and> (e \<noteq> KeyError \<longrightarrow> snd (decrypt_resp_headers self put_keys post_keys) = Inl e)"
  using assms by (simp add: decrypt_resp_headers_def merge_headers_def)

theorem only_KeyError_is_swallowed_witness:
  "remap_user_metadata
      (toy_ctx [] (Inl (HTTPInternalServerError ''Error decrypting header'')))
      (Some [(''object'', ''K1'')])
     = Inl (HTTPException 500 ''Error decrypting header'')
   \<and> snd (decrypt_resp_headers
      (toy_ctx [] (Inl (HTTPInternalServerError ''Error decrypting header'')))
      None (Some [(''object'', ''K1'')]))
     = Inl (HTTPException 500 ''Error decrypting header'')"
  using only_KeyError_is_swallowed
    [of "toy_ctx [] (Inl (HTTPInternalServerError ''Error decrypting header''))" None
        "[]" "[]" "Some [(''object'', ''K1'')]" "HTTPException 500 ''Error decrypting header''"]
  by (simp add: toy_ctx_def toy_decrypt_user_metadata_def decrypt_etags_def
      remap_user_metadata_def dict_truthy_def HTTPInternalServerError_def)

text \<open>
  The claim as written fails: the 500 that swift's \<^verbatim>\<open>decrypt_user_metadata\<close>
  raises for an undecryptable value leaves \<open>decrypt_resp_headers\<close> as it came.
\<close>

theorem remap_http_error_propagates:
  "decrypt_resp_headers
     (toy_ctx [(''Content-Length'', Some ''3'')]
        (Inl (HTTPException 500 ''Error decrypting header'')))
     None (Some [(''object'', ''K1'')])
   = ([], Inl (HTTPException 500 ''Error decrypting header''))"
  by (simp add: toy_ctx_def toy_decrypt_user_metadata_def decrypt_resp_headers_def
      decrypt_etags_def merge_headers_def remap_user_metadata_def dict_truthy_def)

section \<open>Dispatch\<close>

text \<open>
  C9. \<^verbatim>\<open>split_path(3, 4, True)\<close> gives the four parts version, account,
  container and object, the last one \<^verbatim>\<open>None\<close> or empty when the path has no
  object. If the parse raises \<^verbatim>\<open>ValueError\<close>, the request goes to the next
  application as it is. Otherwise: with an object part and the method HEAD or GET, the
  object context's handler runs; with a container part, no object part and the method
  GET, the container context's handler runs; in every other case the request goes to
  the next application as it is.
\<close>

theorem dispatch_routing:
  "(split_path self (req_path req) 3 4 True = Inl ValueError
      \<longrightarrow> decrypter_call self req = app self req)
   \<and> (\<forall>version account container_part object_part.
        split_path self (req_path req) 3 4 True
          = Inr [version, account, container_part, object_part]
        \<longrightarrow> (truthy object_part \<and> (req_method req = ''HEAD'' \<or> req_method req = ''GET'')
               \<longrightarrow> decrypter_call self req = run_handler self (obj_handle self) req)
          \<and> (truthy container_part \<and> \<not> truthy object_part \<and> req_method req = ''GET''
               \<longrightarrow> decrypter_call self req = run_handler self (cont_handle self) req)
          \<and> (\<not> (truthy object_part \<and> (req_method req = ''HEAD'' \<or> req_method req = ''GET''))
              \<and> \<not> (truthy container_part \<and> \<not> truthy object_part \<and> req_method req = ''GET'')
               \<longrightarrow> decrypter_call self req = app self req))"
  by (auto simp: decrypter_call_def getitem_def)

theorem dispatch_routing_witness:
  "decrypter_call toy_decrypter (toy_request ''GET'' ''/v1/a'') = Inr ''next application''
   \<and> decrypter_call toy_decrypter (toy_request ''HEAD'' ''/v1/a/c/o'') = Inr ''object context''
   \<and> decrypter_call toy_decrypter (toy_request ''GET'' ''/v1/a/c'') = Inr ''container context''
   \<and> decrypter_call toy_decrypter (toy_request ''HEAD'' ''/v1/a/c'') = Inr ''next application''
   \<and> decrypter_call toy_decrypter (toy_request ''PUT'' ''/v1/a/c/o'') = Inr ''next application''"
proof -
  have a: "decrypter_call toy_decrypter (toy_request ''GET'' ''/v1/a'') = Inr ''next application''"
    using dispatch_routing [of toy_decrypter "toy_request ''GET'' ''/v1/a''"]
    by (simp add: toy_decrypter_def toy_request_def toy_split_path_def)
  have b: "decrypter_call toy_decrypter (toy_request ''HEAD'' ''/v1/a/c/o'') = Inr ''object context''"
    using dispatch_routing [of toy_decrypter "toy_request ''HEAD'' ''/v1/a/c/o''"]
    by (simp add: toy_decrypter_def toy_request_def toy_split_path_def truthy_def
        run_handler_def)
  have c: "decrypter_call toy_decrypter (toy_request ''GET'' ''/v1/a/c'') = Inr ''container context''"
    using dispatch_routing [of toy_decrypter "toy_request ''GET'' ''/v1/a/c''"]
    by (simp add: toy_decrypter_def toy_request_def toy_split_path_def truthy_def
        run_handler_def)
  have d: "decrypter_call toy_decrypter (toy_request ''HEAD'' ''/v1/a/c'') = Inr ''next application''"
    using dispatch_routing [of toy_decrypter "toy_request ''HEAD'' ''/v1/a/c''"]
    by (simp add: toy_decrypter_def toy_request_def toy_split_path_def truthy_def)
  have e: "decrypter_call toy_decrypter (toy_request ''PUT'' ''/v1/a/c/o'') = Inr ''next application''"
    using dispatch_routing [of toy_decrypter "toy_request ''PUT'' ''/v1/a/c/o''"]
    by (simp add: toy_decrypter_def toy_request_def toy_split_path_def truthy_def)
  from a b c d e show ?thesis by simp
qed

end
